theory Spec2Isabelle
  imports Main "HOL-Library.AList"
begin

section \<open>Wordly: a shallow embedding of \<open>src/app.js\<close>\<close>

text \<open>
  The development follows the classes of \<open>app.js\<close>: the configuration constants,
  \<open>StorageManager\<close>, \<open>DictionaryAPI\<close>, the parts of \<open>UIManager\<close> that show
  the loading, error and word panels, and \<open>WordlyApp\<close>.

  A JavaScript string is modelled as a \<^typ>\<open>string\<close> whose characters are the code units
  U+0000 to U+00FF (Latin-1); on this alphabet \<open>trim\<close>, \<open>toLowerCase\<close> and
  \<open>encodeURIComponent\<close> are closed and are written out below. A thrown value is a
  \<open>js_error\<close> carrying the \<open>name\<close> and \<open>message\<close> that the handlers of the source
  inspect, and a function that may throw returns \<open>js_error + 'a\<close>.
\<close>

subsection \<open>Configuration\<close>

definition API_CONFIG_BASE_URL :: string where
  "API_CONFIG_BASE_URL = ''https://api.dictionaryapi.dev/api/v2/entries/en''"

definition API_CONFIG_TIMEOUT :: nat where
  "API_CONFIG_TIMEOUT = 10000"

definition STORAGE_KEYS_SEARCH_HISTORY :: string where
  "STORAGE_KEYS_SEARCH_HISTORY = ''wordly_search_history''"

definition STORAGE_KEYS_FAVORITES :: string where
  "STORAGE_KEYS_FAVORITES = ''wordly_favorites''"

definition MAX_HISTORY_ITEMS :: nat where
  "MAX_HISTORY_ITEMS = 50"

definition MAX_FAVORITES_ITEMS :: nat where
  "MAX_FAVORITES_ITEMS = 100"

subsection \<open>Thrown values\<close>

datatype js_error = JsError (err_name: string) (err_message: string)

text \<open>\<open>new Error(msg)\<close>: the name of a plain \<open>Error\<close> is \<open>Error\<close>.\<close>

definition new_Error :: "string \<Rightarrow> js_error" where
  "new_Error msg = JsError ''Error'' msg"

text \<open>The exceptions of the platform that reach the handlers of the source.\<close>

definition AbortError :: js_error where
  "AbortError = JsError ''AbortError'' ''The user aborted a request.''"

definition fetch_TypeError :: js_error where
  "fetch_TypeError = JsError ''TypeError'' ''Failed to fetch''"

definition json_SyntaxError :: js_error where
  "json_SyntaxError = JsError ''SyntaxError'' ''Unexpected token in JSON''"

definition undefined_TypeError :: js_error where
  "undefined_TypeError = JsError ''TypeError'' ''Cannot read properties of undefined''"

definition SecurityError :: js_error where
  "SecurityError = JsError ''SecurityError'' ''The operation is insecure.''"

definition QuotaExceededError :: js_error where
  "QuotaExceededError = JsError ''QuotaExceededError'' ''The quota has been exceeded.''"

subsection \<open>Strings\<close>

text \<open>
  \<open>String.prototype.trim\<close> removes white space and line terminators from both ends. Below
  U+0100 these are TAB, LF, VT, FF, CR, SPACE and NO-BREAK SPACE.
\<close>

definition is_js_space :: "char \<Rightarrow> bool" where
  "is_js_space c = (of_char c \<in> {9, 10, 11, 12, 13, 32, 160 :: nat})"

definition trim :: "string \<Rightarrow> string" where
  "trim s = rev (dropWhile is_js_space (rev (dropWhile is_js_space s)))"

text \<open>
  \<open>String.prototype.toLowerCase\<close>: below U+0100 the letters with a lower-case form are
  A to Z and U+00C0 to U+00DE without the multiplication sign U+00D7; each maps to the code
  unit 32 above it.
\<close>

definition lower_char :: "char \<Rightarrow> char" where
  "lower_char c =
     (let n = (of_char c :: nat)
      in if (65 \<le> n \<and> n \<le> 90) \<or> (192 \<le> n \<and> n \<le> 222 \<and> n \<noteq> 215)
         then char_of (n + 32) else c)"

definition toLowerCase :: "string \<Rightarrow> string" where
  "toLowerCase s = map lower_char s"

text \<open>
  \<open>encodeURIComponent\<close> keeps the letters and digits of ASCII and \<open>- _ . ! ~ * ' ( )\<close>;
  every other code unit is written as the bytes of its UTF-8 encoding, each as \<open>%XX\<close>.
\<close>

definition hex_digit :: "nat \<Rightarrow> char" where
  "hex_digit n = ''0123456789ABCDEF'' ! (n mod 16)"

definition percent_byte :: "nat \<Rightarrow> string" where
  "percent_byte b = [CHR ''%'', hex_digit (b div 16), hex_digit b]"

definition uri_unreserved :: "char \<Rightarrow> bool" where
  "uri_unreserved c =
     (let n = (of_char c :: nat)
      in (65 \<le> n \<and> n \<le> 90) \<or> (97 \<le> n \<and> n \<le> 122) \<or> (48 \<le> n \<and> n \<le> 57)
         \<or> c \<in> set ''-_.!~*'()'')"

definition encode_char :: "char \<Rightarrow> string" where
  "encode_char c =
     (let n = (of_char c :: nat)
      in if uri_unreserved c then [c]
         else if n < 128 then percent_byte n
         else percent_byte (192 + n div 64) @ percent_byte (128 + n mod 64))"

definition encodeURIComponent :: "string \<Rightarrow> string" where
  "encodeURIComponent s = concat (map encode_char s)"

subsection \<open>\<open>localStorage\<close> and \<open>StorageManager\<close>\<close>

text \<open>
  The browser's \<open>localStorage\<close> maps string keys to string values. Access throws a
  \<open>SecurityError\<close> when the store is denied to the page, and \<open>setItem\<close> throws a
  \<open>QuotaExceededError\<close> when the keys and values would take more than the quota; these are
  the failures that the \<open>try\<close>/\<open>catch\<close> blocks of \<open>StorageManager\<close> absorb.
\<close>

record localStorage =
  items :: "(string \<times> string) list"
  quota :: nat
  denied :: bool

definition storage_used :: "(string \<times> string) list \<Rightarrow> nat" where
  "storage_used kvs = sum_list (map (\<lambda>(k, v). length k + length v) kvs)"

definition setItem :: "localStorage \<Rightarrow> string \<Rightarrow> string \<Rightarrow> js_error + localStorage" where
  "setItem ls key text =
     (if denied ls then Inl SecurityError
      else let items' = AList.update key text (items ls)
           in if quota ls < storage_used items' then Inl QuotaExceededError
              else Inr (ls\<lparr>items := items'\<rparr>))"

text \<open>\<open>getItem\<close> returns \<open>null\<close> (here \<open>None\<close>) for a key that is not stored.\<close>

definition getItem :: "localStorage \<Rightarrow> string \<Rightarrow> js_error + string option" where
  "getItem ls key = (if denied ls then Inl SecurityError else Inr (map_of (items ls) key))"

text \<open>
  \<open>JSON.stringify\<close> and \<open>JSON.parse\<close> belong to the platform and are parameters of the
  two functions: \<open>JSON_stringify\<close> gives the text of a value, \<open>JSON_parse\<close> gives the value
  of a text or throws a \<open>SyntaxError\<close>.

  \<open>StorageManager.save\<close> (lines 93 to 101) returns the success flag together with the
  store; a throwing \<open>setItem\<close> leaves the store as it was.
\<close>

definition StorageManager_save ::
  "('v \<Rightarrow> string) \<Rightarrow> localStorage \<Rightarrow> string \<Rightarrow> 'v \<Rightarrow> bool \<times> localStorage" where
  "StorageManager_save JSON_stringify ls key v =
     (case setItem ls key (JSON_stringify v) of
        Inr ls' \<Rightarrow> (True, ls')
      | Inl error \<Rightarrow> (False, ls))"

text \<open>
  \<open>StorageManager.load\<close> (lines 109 to 117): \<open>value ? JSON.parse(value) : defaultValue\<close>
  takes the default for \<open>null\<close> and for the empty string, the two falsy results of
  \<open>getItem\<close>; every exception gives the default as well.
\<close>

definition StorageManager_load ::
  "(string \<Rightarrow> js_error + 'v) \<Rightarrow> localStorage \<Rightarrow> string \<Rightarrow> 'v \<Rightarrow> 'v" where
  "StorageManager_load JSON_parse ls key defaultValue =
     (case getItem ls key of
        Inl error \<Rightarrow> defaultValue
      | Inr None \<Rightarrow> defaultValue
      | Inr (Some text) \<Rightarrow>
          if text = [] then defaultValue
          else (case JSON_parse text of
                  Inl error \<Rightarrow> defaultValue
                | Inr v \<Rightarrow> v))"

subsection \<open>Lexical entries and the network\<close>

text \<open>
  The entries of the dictionary service, with the fields that the modelled functions read.
  A \<open>synonyms\<close> or \<open>antonyms\<close> field may be absent (the source reads it with \<open>?.\<close>),
  which is \<open>None\<close>.
\<close>

record word_definition =
  d_definition :: string
  d_example :: "string option"
  d_synonyms :: "string list option"
  d_antonyms :: "string list option"

record meaning =
  m_partOfSpeech :: string
  m_definitions :: "word_definition list"
  m_synonyms :: "string list option"
  m_antonyms :: "string list option"

record lexical_entry =
  entry_word :: string
  entry_meanings :: "meaning list"

text \<open>
  A response has a status and a body. A JSON body is an array of entries, as the service
  sends it; the body is \<open>None\<close> when it is not JSON, so that \<open>response.json()\<close>
  rejects with a \<open>SyntaxError\<close>. \<open>response.ok\<close> holds for the statuses 200 to 299.
\<close>

record response =
  resp_status :: nat
  resp_body :: "lexical_entry list option"

definition response_ok :: "response \<Rightarrow> bool" where
  "response_ok r = (200 \<le> resp_status r \<and> resp_status r \<le> 299)"

text \<open>
  What the network does with one request: after \<open>latency\<close> milliseconds the promise of
  \<open>fetch\<close> would settle, either rejecting (a transport failure: DNS, refused connection)
  or resolving with a response, whose status and headers have then arrived; reading the body
  of the response with \<open>response.json()\<close> takes \<open>body_time\<close> further milliseconds.
\<close>

datatype fetch_settle = Rejects | Resolves response

record net_behaviour =
  latency :: nat
  settles :: fetch_settle
  body_time :: nat

text \<open>
  The time the whole request takes when nothing aborts it: until the promise rejects, or until
  the response has arrived with its body.
\<close>

definition request_time :: "net_behaviour \<Rightarrow> nat" where
  "request_time nb =
     (case settles nb of
        Rejects \<Rightarrow> latency nb
      | Resolves response \<Rightarrow> latency nb + body_time nb)"

text \<open>
  The timer set by \<open>setTimeout(() => controller.abort(), API_CONFIG.TIMEOUT)\<close> runs before
  the promise settles when the latency reaches the timeout; \<open>fetch\<close> then rejects with an
  \<open>AbortError\<close>. When both fall on the same millisecond the browser orders them; the
  properties below speak of latencies strictly below or strictly above the timeout.
  The source clears the timer as soon as the promise has settled (line 245), before it reads
  the body: the timeout bounds the time until the response arrives, and the read of the body
  is not timed.
\<close>

definition timer_fires_first :: "net_behaviour \<Rightarrow> bool" where
  "timer_fires_first nb = (API_CONFIG_TIMEOUT \<le> latency nb)"

definition request_url :: "string \<Rightarrow> string" where
  "request_url word = API_CONFIG_BASE_URL @ ''/'' @ encodeURIComponent word"

text \<open>\<open>data[0]\<close> on an array: the first element, or \<open>undefined\<close> (here \<open>None\<close>).\<close>

definition first_item :: "'a list \<Rightarrow> 'a option" where
  "first_item data = (case data of [] \<Rightarrow> None | x # _ \<Rightarrow> Some x)"

subsection \<open>\<open>DictionaryAPI\<close>\<close>

text \<open>
  \<open>DictionaryAPI.fetchWord\<close> (lines 235 to 270). \<open>fetchWord_try\<close> is the body of the
  \<open>try\<close> block, \<open>fetchWord_catch\<close> the handler, which always throws; the errors thrown
  inside the \<open>try\<close> block pass through the handler like those of the platform.
\<close>

definition fetchWord_try :: "(string \<Rightarrow> net_behaviour) \<Rightarrow> string \<Rightarrow> js_error + lexical_entry option" where
  "fetchWord_try net word =
     (let nb = net (request_url word)
      in if timer_fires_first nb then Inl AbortError
         else (case settles nb of
                 Rejects \<Rightarrow> Inl fetch_TypeError
               | Resolves response \<Rightarrow>
                   if \<not> response_ok response then
                     (if resp_status response = 404 then Inl (new_Error ''WORD_NOT_FOUND'')
                      else Inl (new_Error ''API_ERROR''))
                   else (case resp_body response of
                           None \<Rightarrow> Inl json_SyntaxError
                         | Some data \<Rightarrow> Inr (first_item data))))"

definition fetchWord_catch :: "js_error \<Rightarrow> js_error" where
  "fetchWord_catch error =
     (if err_name error = ''AbortError'' then new_Error ''TIMEOUT''
      else if err_message error = ''WORD_NOT_FOUND'' then error
      else new_Error ''NETWORK_ERROR'')"

text \<open>
  A call returns its result with what it did to the network: the one URL it requested and
  whether \<open>controller.abort()\<close> ran, and with the time at which it returned or threw.
  It throws at the timeout when the timer runs first and at the latency when the promise
  rejects or the response is not \<open>ok\<close>; otherwise it awaits \<open>response.json()\<close> and
  returns once the body has been read.
\<close>

record fetch_run =
  fetch_result :: "js_error + lexical_entry option"
  fetch_requested :: "string list"
  fetch_aborted :: bool
  fetch_elapsed :: nat

definition fetchWord_elapsed :: "(string \<Rightarrow> net_behaviour) \<Rightarrow> string \<Rightarrow> nat" where
  "fetchWord_elapsed net word =
     (let nb = net (request_url word)
      in if timer_fires_first nb then API_CONFIG_TIMEOUT
         else (case settles nb of
                 Rejects \<Rightarrow> latency nb
               | Resolves response \<Rightarrow>
                   if \<not> response_ok response then latency nb
                   else latency nb + body_time nb))"

definition fetchWord :: "(string \<Rightarrow> net_behaviour) \<Rightarrow> string \<Rightarrow> fetch_run" where
  "fetchWord net word =
     \<lparr>fetch_result =
        (case fetchWord_try net word of
           Inl error \<Rightarrow> Inl (fetchWord_catch error)
         | Inr wordData \<Rightarrow> Inr wordData),
      fetch_requested = [request_url word],
      fetch_aborted = timer_fires_first (net (request_url word)),
      fetch_elapsed = fetchWord_elapsed net word\<rparr>"

text \<open>
  A JavaScript \<open>Set\<close> of strings keeps its elements in insertion order and ignores the
  insertion of an element it holds; \<open>Array.from\<close> lists it in that order. The set is the
  list of its elements.
\<close>

definition Set_add :: "'a list \<Rightarrow> 'a \<Rightarrow> 'a list" where
  "Set_add s x = (if x \<in> set s then s else s @ [x])"

text \<open>
  \<open>xs?.length\<close> guards each \<open>forEach\<close>: an absent or empty array adds nothing.
\<close>

definition add_all :: "'a list \<Rightarrow> 'a list option \<Rightarrow> 'a list" where
  "add_all s field =
     (case field of
        None \<Rightarrow> s
      | Some xs \<Rightarrow> if length xs \<noteq> 0 then foldl Set_add s xs else s)"

text \<open>\<open>DictionaryAPI.collectSynonyms\<close> (lines 294 to 312).\<close>

definition collectSynonyms :: "meaning list \<Rightarrow> string list" where
  "collectSynonyms meanings =
     foldl (\<lambda>synonymsSet meaning.
              foldl (\<lambda>s def. add_all s (d_synonyms def))
                (add_all synonymsSet (m_synonyms meaning))
                (m_definitions meaning))
       [] meanings"

text \<open>\<open>DictionaryAPI.collectAntonyms\<close> (lines 319 to 337).\<close>

definition collectAntonyms :: "meaning list \<Rightarrow> string list" where
  "collectAntonyms meanings =
     foldl (\<lambda>antonymsSet meaning.
              foldl (\<lambda>s def. add_all s (d_antonyms def))
                (add_all antonymsSet (m_antonyms meaning))
                (m_definitions meaning))
       [] meanings"

subsection \<open>\<open>UIManager\<close>\<close>

text \<open>
  The elements that the lookup pipeline shows and hides: the \<open>hidden\<close> class of the three
  panels and of the two related-word containers, the texts of the error panel, the value of
  the search input, the state of the favorite button and the rendered related-word tags.
  The word title, the phonetics, the audio element and the meaning sections take no part in
  the properties below and are left out.
\<close>

record ui_state =
  loadingState_hidden :: bool
  errorContainer_hidden :: bool
  wordDisplay_hidden :: bool
  errorTitle :: string
  errorMessage :: string
  wordInput_value :: string
  favoriteBtn_active :: bool
  synonymsContainer_hidden :: bool
  synonymsList :: "string list"
  antonymsContainer_hidden :: bool
  antonymsList :: "string list"

definition showLoading :: "ui_state \<Rightarrow> ui_state" where
  "showLoading u =
     u\<lparr>loadingState_hidden := False, errorContainer_hidden := True, wordDisplay_hidden := True\<rparr>"

definition hideLoading :: "ui_state \<Rightarrow> ui_state" where
  "hideLoading u = u\<lparr>loadingState_hidden := True\<rparr>"

definition showError :: "string \<Rightarrow> string \<Rightarrow> ui_state \<Rightarrow> ui_state" where
  "showError title message u =
     hideLoading (u\<lparr>errorTitle := title, errorMessage := message,
                     errorContainer_hidden := False, wordDisplay_hidden := True\<rparr>)"

definition hideError :: "ui_state \<Rightarrow> ui_state" where
  "hideError u = u\<lparr>errorContainer_hidden := True\<rparr>"

definition updateFavoriteButton :: "bool \<Rightarrow> ui_state \<Rightarrow> ui_state" where
  "updateFavoriteButton isFavorite u = u\<lparr>favoriteBtn_active := isFavorite\<rparr>"

definition renderRelatedWords :: "string list \<Rightarrow> string list \<Rightarrow> ui_state \<Rightarrow> ui_state" where
  "renderRelatedWords synonyms antonyms u =
     (let u1 = (if 0 < length synonyms
                then u\<lparr>synonymsList := synonyms, synonymsContainer_hidden := False\<rparr>
                else u\<lparr>synonymsContainer_hidden := True\<rparr>)
      in if 0 < length antonyms
         then u1\<lparr>antonymsList := antonyms, antonymsContainer_hidden := False\<rparr>
         else u1\<lparr>antonymsContainer_hidden := True\<rparr>)"

definition renderWord :: "lexical_entry \<Rightarrow> bool \<Rightarrow> ui_state \<Rightarrow> ui_state" where
  "renderWord wordData isFavorite u =
     (let u1 = updateFavoriteButton isFavorite u;
          synonyms = collectSynonyms (entry_meanings wordData);
          antonyms = collectAntonyms (entry_meanings wordData);
          u2 = renderRelatedWords synonyms antonyms u1
      in hideError (hideLoading (u2\<lparr>wordDisplay_hidden := False\<rparr>)))"

subsection \<open>\<open>WordlyApp\<close>\<close>

text \<open>
  The application state of the constructor (\<open>currentWord\<close>, \<open>searchHistory\<close>,
  \<open>favorites\<close>; a \<open>null\<close> or \<open>undefined\<close> current word is \<open>None\<close>), with the
  collaborators it acts on: the store, the interface, the texts shown by \<open>alert\<close>, the
  URLs requested from the network and the number of aborted requests.
  The functions take the platform's \<open>JSON.stringify\<close> on word lists as \<open>JSON_stringify\<close>
  and the behaviour of the network as \<open>net\<close>. An \<open>async\<close> function is run to its end
  before the next event is handled.
\<close>

record app =
  currentWord :: "lexical_entry option"
  searchHistory :: "string list"
  favorites :: "string list"
  storage :: localStorage
  ui :: ui_state
  alerts :: "string list"
  requests :: "string list"
  aborts :: nat

text \<open>\<open>WordlyApp.addToHistory\<close> (lines 1024 to 1043).\<close>

definition addToHistory :: "(string list \<Rightarrow> string) \<Rightarrow> string \<Rightarrow> app \<Rightarrow> app" where
  "addToHistory JSON_stringify word st =
     (let h1 = filter (\<lambda>w. w \<noteq> word) (searchHistory st);
          h2 = word # h1;
          h3 = (if MAX_HISTORY_ITEMS < length h2 then take MAX_HISTORY_ITEMS h2 else h2)
      in st\<lparr>searchHistory := h3,
            storage := snd (StorageManager_save JSON_stringify (storage st)
                              STORAGE_KEYS_SEARCH_HISTORY h3)\<rparr>)"

text \<open>
  \<open>Array.prototype.indexOf\<close>: the first index of the element, or \<open>-1\<close>.
  \<open>splice(index, 1)\<close> removes the element at that index.
\<close>

fun indexOf :: "'a list \<Rightarrow> 'a \<Rightarrow> int" where
  "indexOf [] x = -1"
| "indexOf (y # ys) x =
     (if y = x then 0 else (let i = indexOf ys x in if i = -1 then -1 else i + 1))"

definition splice1 :: "'a list \<Rightarrow> nat \<Rightarrow> 'a list" where
  "splice1 xs i = take i xs @ drop (Suc i) xs"

text \<open>The text of the alert, with \<open>MAX_FAVORITES_ITEMS\<close> filled into the template.\<close>

definition capacity_message :: string where
  "capacity_message = ''You can only save up to 100 favorites.''"

text \<open>
  \<open>WordlyApp.toggleFavorite\<close> (lines 1071 to 1100). The function returns nothing in every
  branch; a rejection is the \<open>alert\<close> and the early return before the store is written.
  The refresh of the favorites sidebar is not modelled.
\<close>

definition toggleFavorite :: "(string list \<Rightarrow> string) \<Rightarrow> app \<Rightarrow> app" where
  "toggleFavorite JSON_stringify st =
     (case currentWord st of
        None \<Rightarrow> st
      | Some cur \<Rightarrow>
          let word = entry_word cur;
              index = indexOf (favorites st) word
          in if index > -1 then
               (let favs = splice1 (favorites st) (nat index)
                in st\<lparr>favorites := favs,
                      storage := snd (StorageManager_save JSON_stringify (storage st)
                                        STORAGE_KEYS_FAVORITES favs),
                      ui := updateFavoriteButton (word \<in> set favs) (ui st)\<rparr>)
             else if MAX_FAVORITES_ITEMS \<le> length (favorites st) then
               st\<lparr>alerts := alerts st @ [capacity_message]\<rparr>
             else
               (let favs = favorites st @ [word]
                in st\<lparr>favorites := favs,
                      storage := snd (StorageManager_save JSON_stringify (storage st)
                                        STORAGE_KEYS_FAVORITES favs),
                      ui := updateFavoriteButton (word \<in> set favs) (ui st)\<rparr>))"

text \<open>\<open>WordlyApp.handleSearchError\<close> (lines 980 to 1009).\<close>

definition handleSearchError :: "js_error \<Rightarrow> string \<Rightarrow> app \<Rightarrow> app" where
  "handleSearchError error word st =
     (if err_message error = ''WORD_NOT_FOUND'' then
        st\<lparr>ui := showError ''Word Not Found''
                (''Sorry, we couldn't find \"'' @ word @
                 ''\" in our dictionary. Please check your spelling and try again.'')
                (ui st)\<rparr>
      else if err_message error = ''TIMEOUT'' then
        st\<lparr>ui := showError ''Request Timeout''
                ''The request took too long. Please check your internet connection and try again.''
                (ui st)\<rparr>
      else if err_message error = ''NETWORK_ERROR'' then
        st\<lparr>ui := showError ''Network Error''
                ''Unable to connect to the dictionary service. Please check your internet connection and try again.''
                (ui st)\<rparr>
      else
        st\<lparr>ui := showError ''Unexpected Error''
                ''An unexpected error occurred. Please try again later.''
                (ui st)\<rparr>)"

text \<open>
  \<open>WordlyApp.searchWord\<close> (lines 938 to 973). For a string, \<open>!word\<close> holds exactly when
  it is empty. When \<open>fetchWord\<close> returns \<open>undefined\<close>, the assignment to
  \<open>currentWord\<close> has run before \<open>wordData.word\<close> throws the \<open>TypeError\<close> that the
  \<open>catch\<close> block hands to \<open>handleSearchError\<close>.
\<close>

definition searchWord ::
  "(string list \<Rightarrow> string) \<Rightarrow> (string \<Rightarrow> net_behaviour) \<Rightarrow> string \<Rightarrow> app \<Rightarrow> app" where
  "searchWord JSON_stringify net word st =
     (if word = [] \<or> trim word = [] then
        st\<lparr>ui := showError ''Invalid Input'' ''Please enter a word to look up.'' (ui st)\<rparr>
      else
        let cleanWord = toLowerCase (trim word);
            st1 = st\<lparr>ui := showLoading ((ui st)\<lparr>wordInput_value := cleanWord\<rparr>)\<rparr>;
            run = fetchWord net cleanWord;
            st2 = st1\<lparr>requests := requests st1 @ fetch_requested run,
                      aborts := aborts st1 + (if fetch_aborted run then 1 else 0)\<rparr>
        in (case fetch_result run of
              Inl error \<Rightarrow> handleSearchError error cleanWord st2
            | Inr wordData \<Rightarrow>
                let st3 = st2\<lparr>currentWord := wordData\<rparr>
                in (case wordData of
                      None \<Rightarrow> handleSearchError undefined_TypeError cleanWord st3
                    | Some entry \<Rightarrow>
                        let st4 = addToHistory JSON_stringify (entry_word entry) st3;
                            isFavorite = entry_word entry \<in> set (favorites st4)
                        in st4\<lparr>ui := renderWord entry isFavorite (ui st4)\<rparr>)))"

text \<open>
  The \<open>submit\<close> listener of the search form (lines 834 to 840): the trimmed value of the
  input is searched when it is not empty, and nothing happens otherwise.
\<close>

definition searchForm_submit ::
  "(string list \<Rightarrow> string) \<Rightarrow> (string \<Rightarrow> net_behaviour) \<Rightarrow> app \<Rightarrow> app" where
  "searchForm_submit JSON_stringify net st =
     (let word = trim (wordInput_value (ui st))
      in if word \<noteq> [] then searchWord JSON_stringify net word st else st)"

subsection \<open>The platform functions on the stored values\<close>

text \<open>
  The application stores a boolean (the theme flag) and arrays of strings (history and
  favorites). \<open>JSON.stringify\<close> writes a boolean as \<open>true\<close> or \<open>false\<close>, and an array
  of strings as the quoted strings between brackets, separated by commas; in a quoted string
  the quotation mark, the backslash and the control characters are escaped. These instances
  run the functions above on concrete inputs.
\<close>

definition JSON_stringify_bool :: "bool \<Rightarrow> string" where
  "JSON_stringify_bool b = (if b then ''true'' else ''false'')"

text \<open>
  \<open>JSON.parse\<close> allows space, tab, line feed and carriage return around a value.
  \<open>JSON_parse_bool\<close> is \<open>JSON.parse\<close> on the texts of a boolean, where it gives the
  boolean, and on the texts that are not JSON, where it throws; the text of another JSON value
  has no value of type \<^typ>\<open>bool\<close> and is not an input of this instance.
\<close>

definition is_json_space :: "char \<Rightarrow> bool" where
  "is_json_space c = (of_char c \<in> {9, 10, 13, 32 :: nat})"

definition JSON_parse_bool :: "string \<Rightarrow> js_error + bool" where
  "JSON_parse_bool text =
     (let literal = rev (dropWhile is_json_space (rev (dropWhile is_json_space text)))
      in if literal = ''true'' then Inr True
         else if literal = ''false'' then Inr False
         else Inl json_SyntaxError)"

definition lower_hex :: "nat \<Rightarrow> char" where
  "lower_hex n = ''0123456789abcdef'' ! (n mod 16)"

definition quote_char :: "char \<Rightarrow> string" where
  "quote_char c =
     (let n = (of_char c :: nat)
      in if n = 34 then [CHR 0x5C, CHR 0x22]
         else if n = 92 then [CHR 0x5C, CHR 0x5C]
         else if n = 8 then [CHR 0x5C, CHR ''b'']
         else if n = 9 then [CHR 0x5C, CHR ''t'']
         else if n = 10 then [CHR 0x5C, CHR ''n'']
         else if n = 12 then [CHR 0x5C, CHR ''f'']
         else if n = 13 then [CHR 0x5C, CHR ''r'']
         else if n < 32 then CHR 0x5C # ''u00'' @ [lower_hex (n div 16), lower_hex n]
         else [c])"

definition quote_string :: "string \<Rightarrow> string" where
  "quote_string s = CHR 0x22 # concat (map quote_char s) @ [CHR 0x22]"

fun join_comma :: "string list \<Rightarrow> string" where
  "join_comma [] = []"
| "join_comma [x] = x"
| "join_comma (x # y # ys) = x @ '','' @ join_comma (y # ys)"

definition JSON_stringify_words :: "string list \<Rightarrow> string" where
  "JSON_stringify_words ws = ''['' @ join_comma (map quote_string ws) @ '']''"

subsection \<open>The aggregation as the specification words it\<close>

text \<open>
  The specification describes the aggregation by its result: the strings of the
  meaning-level and definition-level fields of all meanings, in the order in which they are
  listed, each kept at its first occurrence only. \<open>listed\<close> is that sequence for a pair of
  field selectors, \<open>first_seen\<close> keeps the first occurrences.
\<close>

definition field_list :: "'a list option \<Rightarrow> 'a list" where
  "field_list field = (case field of None \<Rightarrow> [] | Some xs \<Rightarrow> xs)"

definition listed ::
  "(meaning \<Rightarrow> string list option) \<Rightarrow> (word_definition \<Rightarrow> string list option) \<Rightarrow>
   meaning list \<Rightarrow> string list" where
  "listed of_meaning of_definition meanings =
     concat (map (\<lambda>m. field_list (of_meaning m) @
                       concat (map (\<lambda>d. field_list (of_definition d)) (m_definitions m)))
               meanings)"

function first_seen :: "'a list \<Rightarrow> 'a list" where
  "first_seen [] = []"
| "first_seen (x # xs) = x # first_seen (filter (\<lambda>y. y \<noteq> x) xs)"
  by pat_completeness auto
termination
  by (relation "measure length") (auto simp: less_Suc_eq_le)

subsection \<open>Concrete inputs\<close>

text \<open>
  Inputs on which the functions are run below: an empty store of five million code units, an
  interface with every panel hidden, the application as its constructor leaves it, an entry
  for \<open>hello\<close>, a network that answers every request with that entry, one that answers
  with status 500, one that answers after twelve seconds, one that answers at once and whose
  body takes twelve seconds, one that answers every request with the entry \<open>color\<close>, a
  store that holds the theme flag \<open>false\<close>, a network that answers with an empty array,
  and a favorites list of 100 distinct words.
\<close>

definition empty_store :: localStorage where
  "empty_store = \<lparr>items = [], quota = 5000000, denied = False\<rparr>"

definition blank_ui :: ui_state where
  "blank_ui =
     \<lparr>loadingState_hidden = True, errorContainer_hidden = True, wordDisplay_hidden = True,
      errorTitle = [], errorMessage = [], wordInput_value = [],
      favoriteBtn_active = False,
      synonymsContainer_hidden = True, synonymsList = [],
      antonymsContainer_hidden = True, antonymsList = []\<rparr>"

definition new_WordlyApp :: app where
  "new_WordlyApp =
     \<lparr>currentWord = None, searchHistory = [], favorites = [],
      storage = empty_store, ui = blank_ui, alerts = [], requests = [], aborts = 0\<rparr>"

definition hello_entry :: lexical_entry where
  "hello_entry =
     \<lparr>entry_word = ''hello'',
      entry_meanings =
        [\<lparr>m_partOfSpeech = ''exclamation'',
          m_definitions =
            [\<lparr>d_definition = ''used as a greeting'', d_example = None,
              d_synonyms = Some [''hi'', ''greetings''], d_antonyms = Some [''goodbye'']\<rparr>],
          m_synonyms = Some [''greetings'', ''hi'', ''howdy''], m_antonyms = None\<rparr>]\<rparr>"

definition hello_net :: "string \<Rightarrow> net_behaviour" where
  "hello_net url =
     \<lparr>latency = 120,
      settles = Resolves \<lparr>resp_status = 200, resp_body = Some [hello_entry]\<rparr>,
      body_time = 30\<rparr>"

definition failing_net :: "string \<Rightarrow> net_behaviour" where
  "failing_net url =
     \<lparr>latency = 120, settles = Resolves \<lparr>resp_status = 500, resp_body = None\<rparr>,
      body_time = 30\<rparr>"

definition slow_net :: "string \<Rightarrow> net_behaviour" where
  "slow_net url =
     \<lparr>latency = 12000,
      settles = Resolves \<lparr>resp_status = 200, resp_body = Some [hello_entry]\<rparr>,
      body_time = 30\<rparr>"

definition late_body_net :: "string \<Rightarrow> net_behaviour" where
  "late_body_net url =
     \<lparr>latency = 120,
      settles = Resolves \<lparr>resp_status = 200, resp_body = Some [hello_entry]\<rparr>,
      body_time = 12000\<rparr>"

definition color_entry :: lexical_entry where
  "color_entry = \<lparr>entry_word = ''color'', entry_meanings = []\<rparr>"

definition color_net :: "string \<Rightarrow> net_behaviour" where
  "color_net url =
     \<lparr>latency = 120,
      settles = Resolves \<lparr>resp_status = 200, resp_body = Some [color_entry]\<rparr>,
      body_time = 30\<rparr>"

definition theme_store :: localStorage where
  "theme_store = \<lparr>items = [(''wordly_theme'', ''false'')], quota = 5000000, denied = False\<rparr>"

definition empty_array_net :: "string \<Rightarrow> net_behaviour" where
  "empty_array_net url =
     \<lparr>latency = 120, settles = Resolves \<lparr>resp_status = 200, resp_body = Some []\<rparr>,
      body_time = 30\<rparr>"

definition hundred_words :: "string list" where
  "hundred_words = map (\<lambda>n. replicate (Suc n) (CHR ''a'')) [0..<100]"

section \<open>Properties\<close>

subsection \<open>StorageManager\<close>

lemma save_success_stores:
  assumes "StorageManager_save enc ls key v = (True, ls')"
  shows "getItem ls' key = Inr (Some (enc v))"
  using assms
  by (auto simp: StorageManager_save_def setItem_def getItem_def Let_def update_conv'
           split: if_splits sum.splits)

lemma save_failure_keeps_store:
  "fst (StorageManager_save enc ls key v) = False \<Longrightarrow>
   snd (StorageManager_save enc ls key v) = ls"
  by (auto simp: StorageManager_save_def split: sum.splits)

lemma save_succeeds:
  assumes "\<not> denied ls"
    and "storage_used (AList.update key (enc v) (items ls)) \<le> quota ls"
  shows "StorageManager_save enc ls key v
           = (True, ls\<lparr>items := AList.update key (enc v) (items ls)\<rparr>)"
  using assms by (simp add: StorageManager_save_def setItem_def Let_def)

lemma save_fails:
  assumes "denied ls \<or> quota ls < storage_used (AList.update key (enc v) (items ls))"
  shows "StorageManager_save enc ls key v = (False, ls)"
  using assms by (auto simp: StorageManager_save_def setItem_def Let_def)

lemma JSON_parse_bool_true: "JSON_parse_bool (JSON_stringify_bool True) = Inr True"
  by (simp add: JSON_parse_bool_def JSON_stringify_bool_def is_json_space_def)

text \<open>
  Claim C6. A value \<open>v\<close> is JSON-serializable when the platform's \<open>JSON.parse\<close> gives
  \<open>v\<close> back from the text \<open>JSON.stringify\<close> wrote for it; a JSON text is never empty.
  For every key, every such value and every default, in a store that the page may access and
  whose quota admits the text under the key: \<open>StorageManager.save\<close> returns \<open>true\<close>, and
  \<open>StorageManager.load\<close> of that key then returns the value, whatever the store held
  under the key before; and \<open>StorageManager.load\<close> of a key that the store does not hold
  returns the default.
\<close>

theorem storage_round_trip:
  "(JSON_parse (JSON_stringify v) = Inr v \<longrightarrow> JSON_stringify v \<noteq> [] \<longrightarrow>
      \<not> denied ls \<longrightarrow>
      storage_used (AList.update key (JSON_stringify v) (items ls)) \<le> quota ls \<longrightarrow>
        fst (StorageManager_save JSON_stringify ls key v)
        \<and> StorageManager_load JSON_parse
              (snd (StorageManager_save JSON_stringify ls key v)) key defaultValue = v)
   \<and> (map_of (items ls) unknownKey = None \<longrightarrow>
      StorageManager_load JSON_parse ls unknownKey defaultValue = defaultValue)"
proof (intro conjI impI)
  assume rt: "JSON_parse (JSON_stringify v) = Inr v" and ne: "JSON_stringify v \<noteq> []"
    and acc: "\<not> denied ls"
    and room: "storage_used (AList.update key (JSON_stringify v) (items ls)) \<le> quota ls"
  let ?ls' = "ls\<lparr>items := AList.update key (JSON_stringify v) (items ls)\<rparr>"
  have s: "StorageManager_save JSON_stringify ls key v = (True, ?ls')"
    using acc room by (rule save_succeeds)
  show "fst (StorageManager_save JSON_stringify ls key v)" by (simp add: s)
  have "getItem ?ls' key = Inr (Some (JSON_stringify v))"
    using s by (rule save_success_stores)
  then show "StorageManager_load JSON_parse
      (snd (StorageManager_save JSON_stringify ls key v)) key defaultValue = v"
    using rt ne s by (simp add: StorageManager_load_def)
next
  assume "map_of (items ls) unknownKey = None"
  then show "StorageManager_load JSON_parse ls unknownKey defaultValue = defaultValue"
    by (simp add: StorageManager_load_def getItem_def)
qed

theorem storage_round_trip_witness:
  "JSON_parse_bool (JSON_stringify_bool True) = Inr True
   \<and> JSON_stringify_bool True \<noteq> []
   \<and> \<not> denied theme_store
   \<and> storage_used (AList.update ''wordly_theme'' (JSON_stringify_bool True) (items theme_store))
       \<le> quota theme_store
   \<and> StorageManager_load JSON_parse_bool theme_store ''wordly_theme'' True = False
   \<and> fst (StorageManager_save JSON_stringify_bool theme_store ''wordly_theme'' True)
   \<and> StorageManager_load JSON_parse_bool
        (snd (StorageManager_save JSON_stringify_bool theme_store ''wordly_theme'' True))
        ''wordly_theme'' False = True
   \<and> map_of (items theme_store) ''wordly_favorites'' = None
   \<and> StorageManager_load JSON_parse_bool theme_store ''wordly_favorites'' False = False"
proof -
  have h1: "JSON_parse_bool (JSON_stringify_bool True) = Inr True"
    by (rule JSON_parse_bool_true)
  have h2: "JSON_stringify_bool True \<noteq> []" by (simp add: JSON_stringify_bool_def)
  have h3: "\<not> denied theme_store" by (simp add: theme_store_def)
  have h4: "storage_used (AList.update ''wordly_theme'' (JSON_stringify_bool True)
              (items theme_store)) \<le> quota theme_store"
    by (simp add: theme_store_def JSON_stringify_bool_def storage_used_def)
  have h5: "map_of (items theme_store) ''wordly_favorites'' = None"
    by (simp add: theme_store_def)
  have before: "StorageManager_load JSON_parse_bool theme_store ''wordly_theme'' True = False"
    by (simp add: StorageManager_load_def getItem_def theme_store_def JSON_parse_bool_def
          is_json_space_def)
  show ?thesis
    using h1 h2 h3 h4 h5 before
      storage_round_trip [where JSON_parse = JSON_parse_bool
        and JSON_stringify = JSON_stringify_bool and v = True and ls = theme_store
        and key = "''wordly_theme''" and defaultValue = False
        and unknownKey = "''wordly_favorites''"]
    by simp
qed

subsection \<open>Strings\<close>

lemma char_cases: "of_char (c::char) < (256::nat)"
  by (metis of_char_mod_256 mod_less_divisor zero_less_numeral)

lemma lower_char_idem: "lower_char (lower_char c) = lower_char c"
proof -
  have "of_char c < (256::nat)" by (rule char_cases)
  then show ?thesis
    by (auto simp: lower_char_def Let_def)
qed

lemma is_js_space_lower: "is_js_space (lower_char c) = is_js_space c"
proof -
  have "of_char c < (256::nat)" by (rule char_cases)
  then show ?thesis
    by (auto simp: lower_char_def is_js_space_def Let_def)
qed

lemma dropWhile_hd_stable:
  assumes "xs \<noteq> []" "\<not> P (hd xs)"
  shows "dropWhile P xs = xs"
  using assms by (cases xs) auto

lemma trim_idem: "trim (trim s) = trim s"
proof (cases "trim s = []")
  case True
  have "trim [] = []" by (simp add: trim_def)
  with True show ?thesis by simp
next
  case False
  define a where "a = dropWhile is_js_space s"
  define b where "b = dropWhile is_js_space (rev a)"
  have t: "trim s = rev b" by (simp add: trim_def a_def b_def)
  have bne: "b \<noteq> []" using False t by simp
  have ane: "a \<noteq> []" using bne b_def by auto
  have "\<not> is_js_space (hd a)" using ane unfolding a_def by (rule hd_dropWhile)
  moreover have "hd (rev b) = hd a"
  proof -
    have "last b = last (rev a)" unfolding b_def
      using bne b_def by (metis last_appendR takeWhile_dropWhile_id)
    then show ?thesis using ane bne by (simp add: hd_rev last_rev)
  qed
  ultimately have e1: "dropWhile is_js_space (rev b) = rev b"
    using bne by (intro dropWhile_hd_stable) auto
  have e2: "dropWhile is_js_space b = b" by (simp add: b_def)
  have "trim (rev b) = rev (dropWhile is_js_space (rev (dropWhile is_js_space (rev b))))"
    by (simp only: trim_def)
  also have "\<dots> = rev (dropWhile is_js_space (rev (rev b)))" by (simp only: e1)
  also have "\<dots> = rev b" by (simp add: e2)
  finally show ?thesis by (simp only: t)
qed

lemma trim_toLowerCase: "trim (toLowerCase s) = toLowerCase (trim s)"
proof -
  have c: "is_js_space \<circ> lower_char = is_js_space"
    by (rule ext) (simp add: is_js_space_lower)
  have d: "dropWhile is_js_space (map lower_char xs) = map lower_char (dropWhile is_js_space xs)"
    for xs by (simp add: dropWhile_map c)
  have "trim (map lower_char s)
      = rev (dropWhile is_js_space (rev (map lower_char (dropWhile is_js_space s))))"
    by (simp only: trim_def d)
  also have "\<dots> = rev (dropWhile is_js_space (map lower_char (rev (dropWhile is_js_space s))))"
    by (simp only: rev_map)
  also have "\<dots> = rev (map lower_char (dropWhile is_js_space (rev (dropWhile is_js_space s))))"
    by (simp only: d)
  also have "\<dots> = map lower_char (trim s)"
    by (simp only: rev_map trim_def)
  finally show ?thesis by (simp only: toLowerCase_def)
qed

lemma toLowerCase_idem: "toLowerCase (toLowerCase s) = toLowerCase s"
  by (simp add: toLowerCase_def lower_char_idem)

subsection \<open>Runs on the concrete inputs\<close>

lemma trim_hello: "trim ''hello'' = ''hello''"
  by (simp add: trim_def is_js_space_def)

lemma trim_Hello_padded: "trim '' Hello '' = ''Hello''"
  by (simp add: trim_def is_js_space_def)

lemma lower_Hello: "toLowerCase ''Hello'' = ''hello''"
  by code_simp

lemma lower_hello: "toLowerCase ''hello'' = ''hello''"
  by code_simp

lemma url_hello:
  "request_url ''hello'' = ''https://api.dictionaryapi.dev/api/v2/entries/en/hello''"
  by (simp add: request_url_def API_CONFIG_BASE_URL_def encodeURIComponent_def encode_char_def
        uri_unreserved_def)

lemma fetch_hello: "fetch_result (fetchWord hello_net w) = Inr (Some hello_entry)"
  by (simp add: fetchWord_def fetchWord_try_def hello_net_def timer_fires_first_def
        API_CONFIG_TIMEOUT_def response_ok_def first_item_def)

lemma trim_Colour: "trim ''Colour'' = ''Colour''"
  by (simp add: trim_def is_js_space_def)

lemma lower_Colour: "toLowerCase ''Colour'' = ''colour''"
  by code_simp

lemma fetch_color: "fetch_result (fetchWord color_net w) = Inr (Some color_entry)"
  by (simp add: fetchWord_def fetchWord_try_def color_net_def timer_fires_first_def
        API_CONFIG_TIMEOUT_def response_ok_def first_item_def)

lemma hello_not_in_hundred: "''hello'' \<notin> set hundred_words"
  by (auto simp: hundred_words_def)

lemma distinct_hundred: "distinct hundred_words"
  by (auto simp: hundred_words_def distinct_map inj_on_def)

subsection \<open>History\<close>

lemma searchHistory_addToHistory:
  "searchHistory (addToHistory enc w st) =
     take MAX_HISTORY_ITEMS (w # filter (\<lambda>x. x \<noteq> w) (searchHistory st))"
  by (simp add: addToHistory_def Let_def)

lemma count_list_filter_neq: "count_list (filter (\<lambda>x. x \<noteq> w) xs) w = 0"
  by (simp add: count_list_0_iff)

lemma addToHistory_other_fields:
  "currentWord (addToHistory enc w st) = currentWord st"
  "favorites (addToHistory enc w st) = favorites st"
  "ui (addToHistory enc w st) = ui st"
  "alerts (addToHistory enc w st) = alerts st"
  "requests (addToHistory enc w st) = requests st"
  "aborts (addToHistory enc w st) = aborts st"
  by (simp_all add: addToHistory_def Let_def)

lemma addToHistory_length: "length (searchHistory (addToHistory enc w st)) \<le> 50"
  by (simp add: searchHistory_addToHistory MAX_HISTORY_ITEMS_def)

lemma addToHistory_hd: "hd (searchHistory (addToHistory enc w st)) = w"
  by (simp add: searchHistory_addToHistory MAX_HISTORY_ITEMS_def)

lemma count_list_take_Cons:
  assumes "count_list xs w = 0" "0 < n"
  shows "count_list (take n (w # xs)) w = 1"
proof -
  obtain m where n: "n = Suc m" using assms(2) by (cases n) auto
  have "w \<notin> set xs" using assms(1) by (simp add: count_list_0_iff)
  then have "w \<notin> set (take m xs)" by (auto dest: in_set_takeD)
  then have "count_list (take m xs) w = 0" by (simp add: count_list_0_iff)
  then show ?thesis by (simp add: n)
qed

lemma addToHistory_count: "count_list (searchHistory (addToHistory enc w st)) w = 1"
  unfolding searchHistory_addToHistory
  by (rule count_list_take_Cons) (simp_all add: count_list_filter_neq MAX_HISTORY_ITEMS_def)

lemma filter_neq_removeAll: "filter (\<lambda>x. x \<noteq> w) xs = removeAll w xs"
  by (induction xs) auto

lemma searchWord_success:
  assumes "trim word \<noteq> []"
    and "fetch_result (fetchWord net (toLowerCase (trim word))) = Inr (Some e)"
  shows "searchHistory (searchWord enc net word st)
           = searchHistory (addToHistory enc (entry_word e) st)"
proof -
  have "word \<noteq> []" using assms(1) by (auto simp: trim_def)
  then show ?thesis
    using assms by (simp add: searchWord_def Let_def searchHistory_addToHistory)
qed

text \<open>
  Claim C2, as amended. For every word \<open>W\<close> and every history list, \<open>addToHistory\<close>
  removes every occurrence of \<open>W\<close>, puts \<open>W\<close> in front and keeps the first 50 elements,
  dropping the tail; so \<open>W\<close> is the first element of the history and occurs in it exactly
  once, also when it was present before. A successful lookup adds the word of the entry that
  the service returned (\<open>wordData.word\<close>, line 963) in this way: afterwards that word is
  the first element of the history and occurs in it exactly once.
\<close>

theorem addToHistory_moves_to_front:
  "searchHistory (addToHistory JSON_stringify w st)
      = take 50 (w # removeAll w (searchHistory st))
   \<and> hd (searchHistory (addToHistory JSON_stringify w st)) = w
   \<and> count_list (searchHistory (addToHistory JSON_stringify w st)) w = 1
   \<and> (trim input \<noteq> [] \<longrightarrow>
        fetch_result (fetchWord net (toLowerCase (trim input))) = Inr (Some entry) \<longrightarrow>
          searchHistory (searchWord JSON_stringify net input st)
            = take 50 (entry_word entry # removeAll (entry_word entry) (searchHistory st))
          \<and> hd (searchHistory (searchWord JSON_stringify net input st)) = entry_word entry
          \<and> count_list (searchHistory (searchWord JSON_stringify net input st))
                (entry_word entry) = 1)"
proof (intro conjI impI)
  show "searchHistory (addToHistory JSON_stringify w st)
      = take 50 (w # removeAll w (searchHistory st))"
    by (simp add: searchHistory_addToHistory MAX_HISTORY_ITEMS_def filter_neq_removeAll)
  show "hd (searchHistory (addToHistory JSON_stringify w st)) = w"
    by (rule addToHistory_hd)
  show "count_list (searchHistory (addToHistory JSON_stringify w st)) w = 1"
    by (rule addToHistory_count)
next
  assume a: "trim input \<noteq> []"
    "fetch_result (fetchWord net (toLowerCase (trim input))) = Inr (Some entry)"
  have s: "searchHistory (searchWord JSON_stringify net input st)
      = searchHistory (addToHistory JSON_stringify (entry_word entry) st)"
    using a by (rule searchWord_success)
  show "searchHistory (searchWord JSON_stringify net input st)
      = take 50 (entry_word entry # removeAll (entry_word entry) (searchHistory st))"
    unfolding s
    by (simp add: searchHistory_addToHistory MAX_HISTORY_ITEMS_def filter_neq_removeAll)
  show "hd (searchHistory (searchWord JSON_stringify net input st)) = entry_word entry"
    unfolding s by (rule addToHistory_hd)
  show "count_list (searchHistory (searchWord JSON_stringify net input st))
          (entry_word entry) = 1"
    unfolding s by (rule addToHistory_count)
qed

theorem addToHistory_moves_to_front_witness:
  "trim '' Hello '' \<noteq> []
   \<and> fetch_result (fetchWord hello_net (toLowerCase (trim '' Hello ''))) = Inr (Some hello_entry)
   \<and> searchHistory (addToHistory JSON_stringify_words ''hello''
         (new_WordlyApp\<lparr>searchHistory := [''world'', ''hello'', ''word'']\<rparr>))
       = [''hello'', ''world'', ''word'']
   \<and> searchHistory (searchWord JSON_stringify_words hello_net '' Hello ''
         (new_WordlyApp\<lparr>searchHistory := [''world'', ''hello'', ''word'']\<rparr>))
       = [''hello'', ''world'', ''word'']
   \<and> hd (searchHistory (searchWord JSON_stringify_words hello_net '' Hello ''
         (new_WordlyApp\<lparr>searchHistory := [''world'', ''hello'', ''word'']\<rparr>))) = ''hello''
   \<and> count_list (searchHistory (searchWord JSON_stringify_words hello_net '' Hello ''
         (new_WordlyApp\<lparr>searchHistory := [''world'', ''hello'', ''word'']\<rparr>))) ''hello'' = 1"
proof -
  have h1: "trim '' Hello '' \<noteq> []" by (simp add: trim_Hello_padded)
  have h2: "fetch_result (fetchWord hello_net (toLowerCase (trim '' Hello '')))
      = Inr (Some hello_entry)" by (rule fetch_hello)
  have h3: "entry_word hello_entry = ''hello''" by (simp add: hello_entry_def)
  show ?thesis
    using h1 h2
      addToHistory_moves_to_front [where JSON_stringify = JSON_stringify_words
        and w = "''hello''" and input = "'' Hello ''" and net = hello_net
        and entry = hello_entry
        and st = "new_WordlyApp\<lparr>searchHistory := [''world'', ''hello'', ''word'']\<rparr>"]
    by (simp add: h3)
qed

text \<open>
  Claim C2 as stated fails for the word that was looked up: when the lookup of \<open>Colour\<close>
  is answered with the entry \<open>color\<close>, a history that held \<open>colour\<close> becomes
  \<open>color\<close>, \<open>colour\<close>, and neither the input nor its trimmed, lower-cased form is the
  first element.
\<close>

theorem lookup_records_service_word:
  "trim ''Colour'' \<noteq> []
   \<and> toLowerCase (trim ''Colour'') = ''colour''
   \<and> fetch_result (fetchWord color_net ''colour'') = Inr (Some color_entry)
   \<and> searchHistory (searchWord JSON_stringify_words color_net ''Colour''
         (new_WordlyApp\<lparr>searchHistory := [''colour'']\<rparr>))
       = [''color'', ''colour'']
   \<and> hd (searchHistory (searchWord JSON_stringify_words color_net ''Colour''
         (new_WordlyApp\<lparr>searchHistory := [''colour'']\<rparr>))) \<noteq> ''colour''
   \<and> hd (searchHistory (searchWord JSON_stringify_words color_net ''Colour''
         (new_WordlyApp\<lparr>searchHistory := [''colour'']\<rparr>))) \<noteq> ''Colour''"
proof -
  have t: "trim ''Colour'' \<noteq> []" by (simp add: trim_Colour)
  have f: "fetch_result (fetchWord color_net (toLowerCase (trim ''Colour'')))
      = Inr (Some color_entry)" by (rule fetch_color)
  have "searchHistory (searchWord JSON_stringify_words color_net ''Colour''
         (new_WordlyApp\<lparr>searchHistory := [''colour'']\<rparr>))
      = searchHistory (addToHistory JSON_stringify_words (entry_word color_entry)
         (new_WordlyApp\<lparr>searchHistory := [''colour'']\<rparr>))"
    using t f by (rule searchWord_success)
  then have h: "searchHistory (searchWord JSON_stringify_words color_net ''Colour''
         (new_WordlyApp\<lparr>searchHistory := [''colour'']\<rparr>)) = [''color'', ''colour'']"
    by (simp add: searchHistory_addToHistory color_entry_def MAX_HISTORY_ITEMS_def)
  show ?thesis
    by (simp add: h trim_Colour lower_Colour fetch_color)
qed

lemma fold_addToHistory_length:
  "length (searchHistory st) \<le> 50 \<Longrightarrow>
   length (searchHistory (fold (addToHistory enc) ws st)) \<le> 50"
  by (induction ws rule: rev_induct) (simp_all add: addToHistory_length)

text \<open>
  Claim C3. Starting from a history of at most 50 words, the history holds at most 50 words
  after every prefix of every finite sequence of \<open>addToHistory\<close> calls.
\<close>

theorem history_length_bounded:
  "length (searchHistory st) \<le> 50 \<Longrightarrow>
   length (searchHistory (fold (addToHistory JSON_stringify) (take n ws) st)) \<le> 50"
  by (rule fold_addToHistory_length)

theorem history_length_bounded_witness:
  "length (searchHistory new_WordlyApp) \<le> 50
   \<and> length (searchHistory
        (fold (addToHistory JSON_stringify_words) (take 60 hundred_words) new_WordlyApp)) \<le> 50"
proof -
  have h: "length (searchHistory new_WordlyApp) \<le> 50" by (simp add: new_WordlyApp_def)
  show ?thesis
    using h history_length_bounded [OF h, of JSON_stringify_words 60 hundred_words] by simp
qed

subsection \<open>Favorites\<close>

lemma indexOf_ge: "- 1 \<le> indexOf xs x"
  by (induction xs) (auto simp: Let_def)

lemma indexOf_absent: "(indexOf xs x = - 1) = (x \<notin> set xs)"
proof (induction xs)
  case Nil
  show ?case by simp
next
  case (Cons y ys)
  have "- 1 \<le> indexOf ys x" by (rule indexOf_ge)
  with Cons show ?case by (auto simp: Let_def)
qed

lemma indexOf_present: "(- 1 < indexOf xs x) = (x \<in> set xs)"
  using indexOf_ge [of xs x] indexOf_absent [of xs x] by auto

lemma splice1_indexOf:
  "x \<in> set xs \<Longrightarrow> splice1 xs (nat (indexOf xs x)) = remove1 x xs"
proof (induction xs)
  case Nil
  then show ?case by simp
next
  case (Cons y ys)
  show ?case
  proof (cases "y = x")
    case True
    then show ?thesis by (simp add: splice1_def)
  next
    case False
    with Cons.prems have m: "x \<in> set ys" by simp
    then have "0 \<le> indexOf ys x" using indexOf_present [of ys x] by simp
    then have "nat (indexOf ys x + 1) = Suc (nat (indexOf ys x))" by simp
    moreover have "indexOf ys x \<noteq> - 1" using m indexOf_absent [of ys x] by simp
    ultimately show ?thesis
      using False Cons.IH [OF m] by (simp add: splice1_def Let_def)
  qed
qed

lemma toggleFavorite_present:
  assumes "currentWord st = Some e" "entry_word e \<in> set (favorites st)"
  shows "favorites (toggleFavorite enc st) = remove1 (entry_word e) (favorites st)"
  using assms
  by (simp add: toggleFavorite_def Let_def indexOf_present splice1_indexOf)

lemma toggleFavorite_full:
  assumes "currentWord st = Some e" "entry_word e \<notin> set (favorites st)"
    "100 \<le> length (favorites st)"
  shows "toggleFavorite enc st = st\<lparr>alerts := alerts st @ [capacity_message]\<rparr>"
  using assms indexOf_present [of "favorites st" "entry_word e"]
  by (simp add: toggleFavorite_def Let_def MAX_FAVORITES_ITEMS_def)

lemma toggleFavorite_append:
  assumes "currentWord st = Some e" "entry_word e \<notin> set (favorites st)"
    "length (favorites st) < 100"
  shows "favorites (toggleFavorite enc st) = favorites st @ [entry_word e]"
  using assms indexOf_present [of "favorites st" "entry_word e"]
  by (simp add: toggleFavorite_def Let_def MAX_FAVORITES_ITEMS_def)

lemma toggleFavorite_currentWord: "currentWord (toggleFavorite enc st) = currentWord st"
  by (simp add: toggleFavorite_def Let_def split: option.splits)

lemma toggleFavorite_invariant:
  assumes "distinct (favorites st)" "length (favorites st) \<le> 100"
  shows "distinct (favorites (toggleFavorite enc st))
         \<and> length (favorites (toggleFavorite enc st)) \<le> 100"
proof (cases "currentWord st")
  case None
  then show ?thesis using assms by (simp add: toggleFavorite_def)
next
  case (Some e)
  show ?thesis
  proof (cases "entry_word e \<in> set (favorites st)")
    case True
    then show ?thesis
      using assms toggleFavorite_present [OF Some True, of enc]
      by (simp add: length_remove1)
  next
    case False
    show ?thesis
    proof (cases "100 \<le> length (favorites st)")
      case True
      then show ?thesis using assms toggleFavorite_full [OF Some False True, of enc] by simp
    next
      case f: False
      then have "length (favorites st) < 100" by simp
      from toggleFavorite_append [OF Some False this, of enc] show ?thesis
        using assms False f by simp
    qed
  qed
qed

lemma toggle_twice_absent:
  assumes cur: "currentWord st = Some e" and out: "entry_word e \<notin> set (favorites st)"
  shows "favorites (toggleFavorite enc (toggleFavorite enc st)) = favorites st"
proof (cases "100 \<le> length (favorites st)")
  case True
  let ?st1 = "st\<lparr>alerts := alerts st @ [capacity_message]\<rparr>"
  have 1: "toggleFavorite enc st = ?st1" using cur out True by (rule toggleFavorite_full)
  have "toggleFavorite enc ?st1 = ?st1\<lparr>alerts := alerts ?st1 @ [capacity_message]\<rparr>"
    by (rule toggleFavorite_full [where e = e]) (use cur out True in simp_all)
  then show ?thesis by (simp add: 1)
next
  case False
  then have lt: "length (favorites st) < 100" by simp
  have 1: "favorites (toggleFavorite enc st) = favorites st @ [entry_word e]"
    using cur out lt by (rule toggleFavorite_append)
  have c1: "currentWord (toggleFavorite enc st) = Some e"
    by (simp add: toggleFavorite_currentWord cur)
  have "favorites (toggleFavorite enc (toggleFavorite enc st))
      = remove1 (entry_word e) (favorites (toggleFavorite enc st))"
    using c1 by (rule toggleFavorite_present) (simp add: 1)
  then show ?thesis using out by (simp add: 1 remove1_append)
qed

lemma toggle_twice_present:
  assumes cur: "currentWord st = Some e" and mem: "entry_word e \<in> set (favorites st)"
    and d: "distinct (favorites st)" and len: "length (favorites st) \<le> 100"
  shows "set (favorites (toggleFavorite enc (toggleFavorite enc st))) = set (favorites st)"
proof -
  have 1: "favorites (toggleFavorite enc st) = remove1 (entry_word e) (favorites st)"
    using cur mem by (rule toggleFavorite_present)
  have c1: "currentWord (toggleFavorite enc st) = Some e"
    by (simp add: toggleFavorite_currentWord cur)
  have out1: "entry_word e \<notin> set (favorites (toggleFavorite enc st))"
    using d by (simp add: 1)
  have lt1: "length (favorites (toggleFavorite enc st)) < 100"
  proof -
    have "0 < length (favorites st)" using mem by (cases "favorites st") auto
    then show ?thesis using mem len by (simp add: 1 length_remove1)
  qed
  from c1 out1 lt1 have "favorites (toggleFavorite enc (toggleFavorite enc st))
      = favorites (toggleFavorite enc st) @ [entry_word e]"
    by (rule toggleFavorite_append)
  then show ?thesis using mem d by (auto simp: 1)
qed

text \<open>
  Claim C1. Let \<open>W\<close> be the word of the current entry. \<open>toggleFavorite\<close> removes
  \<open>W\<close> from the favorites when it is present (the element at its first index, after which
  a list without duplicates no longer holds \<open>W\<close>); when \<open>W\<close> is absent and the list
  holds 100 words or more, it raises the capacity alert and changes nothing else, neither the
  list nor the store; otherwise it appends \<open>W\<close>. Toggling twice gives the membership
  back: when \<open>W\<close> was absent the list is the original one, and when \<open>W\<close> was present in
  a favorites list of the data model (no duplicates, at most 100 words) the favorites are the
  same set of words as before.
\<close>

theorem toggleFavorite_behaviour:
  assumes "currentWord st = Some entry" and "entry_word entry = w"
  shows
   "(w \<in> set (favorites st) \<longrightarrow>
       favorites (toggleFavorite JSON_stringify st) = remove1 w (favorites st)
       \<and> (distinct (favorites st) \<longrightarrow> w \<notin> set (favorites (toggleFavorite JSON_stringify st))))
    \<and> (w \<notin> set (favorites st) \<and> 100 \<le> length (favorites st) \<longrightarrow>
       toggleFavorite JSON_stringify st
         = st\<lparr>alerts := alerts st @ [''You can only save up to 100 favorites.'']\<rparr>
       \<and> favorites (toggleFavorite JSON_stringify st) = favorites st
       \<and> storage (toggleFavorite JSON_stringify st) = storage st)
    \<and> (w \<notin> set (favorites st) \<and> length (favorites st) < 100 \<longrightarrow>
       favorites (toggleFavorite JSON_stringify st) = favorites st @ [w])
    \<and> (w \<notin> set (favorites st) \<longrightarrow>
       favorites (toggleFavorite JSON_stringify (toggleFavorite JSON_stringify st))
         = favorites st)
    \<and> (w \<in> set (favorites st) \<and> distinct (favorites st) \<and> length (favorites st) \<le> 100 \<longrightarrow>
       set (favorites (toggleFavorite JSON_stringify (toggleFavorite JSON_stringify st)))
         = set (favorites st))"
proof (intro conjI impI; (elim conjE)?)
  note cur = assms(1) and w = assms(2) [symmetric]
  {
    assume m: "w \<in> set (favorites st)"
    show r: "favorites (toggleFavorite JSON_stringify st) = remove1 w (favorites st)"
      using cur m unfolding w by (rule toggleFavorite_present)
    assume "distinct (favorites st)"
    then show "w \<notin> set (favorites (toggleFavorite JSON_stringify st))" by (simp add: r)
  }
  {
    assume nm: "w \<notin> set (favorites st)" and full: "100 \<le> length (favorites st)"
    show r: "toggleFavorite JSON_stringify st
         = st\<lparr>alerts := alerts st @ [''You can only save up to 100 favorites.'']\<rparr>"
      using toggleFavorite_full [OF cur, of JSON_stringify] nm full
      by (simp add: w capacity_message_def)
    show "favorites (toggleFavorite JSON_stringify st) = favorites st" by (simp add: r)
    show "storage (toggleFavorite JSON_stringify st) = storage st" by (simp add: r)
  }
  {
    assume nm: "w \<notin> set (favorites st)" and "length (favorites st) < 100"
    then show "favorites (toggleFavorite JSON_stringify st) = favorites st @ [w]"
      using toggleFavorite_append [OF cur, of JSON_stringify] by (simp add: w)
  }
  {
    assume nm: "w \<notin> set (favorites st)"
    then show "favorites (toggleFavorite JSON_stringify (toggleFavorite JSON_stringify st))
         = favorites st"
      using toggle_twice_absent [OF cur, of JSON_stringify] by (simp add: w)
  }
  {
    assume "w \<in> set (favorites st)" "distinct (favorites st)" "length (favorites st) \<le> 100"
    then show "set (favorites (toggleFavorite JSON_stringify (toggleFavorite JSON_stringify st)))
         = set (favorites st)"
      using toggle_twice_present [OF cur, of JSON_stringify] by (simp add: w)
  }
qed

theorem toggleFavorite_behaviour_witness:
  "currentWord (new_WordlyApp\<lparr>currentWord := Some hello_entry, favorites := [''hi'', ''hello'']\<rparr>)
      = Some hello_entry
   \<and> entry_word hello_entry = ''hello''
   \<and> ''hello'' \<in> set [''hi'', ''hello''] \<and> distinct [''hi'', ''hello'']
   \<and> length [''hi'', ''hello''] \<le> 100
   \<and> favorites (toggleFavorite JSON_stringify_words
        (new_WordlyApp\<lparr>currentWord := Some hello_entry, favorites := [''hi'', ''hello'']\<rparr>))
       = [''hi'']
   \<and> set (favorites (toggleFavorite JSON_stringify_words (toggleFavorite JSON_stringify_words
        (new_WordlyApp\<lparr>currentWord := Some hello_entry, favorites := [''hi'', ''hello'']\<rparr>))))
       = {''hi'', ''hello''}
   \<and> ''hello'' \<notin> set hundred_words \<and> 100 \<le> length hundred_words
   \<and> toggleFavorite JSON_stringify_words
        (new_WordlyApp\<lparr>currentWord := Some hello_entry, favorites := hundred_words\<rparr>)
       = new_WordlyApp\<lparr>currentWord := Some hello_entry, favorites := hundred_words,
            alerts := [''You can only save up to 100 favorites.'']\<rparr>
   \<and> ''hello'' \<notin> set [''hi''] \<and> length [''hi''] < 100
   \<and> favorites (toggleFavorite JSON_stringify_words
        (new_WordlyApp\<lparr>currentWord := Some hello_entry, favorites := [''hi'']\<rparr>))
       = [''hi'', ''hello'']
   \<and> favorites (toggleFavorite JSON_stringify_words (toggleFavorite JSON_stringify_words
        (new_WordlyApp\<lparr>currentWord := Some hello_entry, favorites := [''hi'']\<rparr>)))
       = [''hi'']"
proof -
  have e: "entry_word hello_entry = ''hello''" by (simp add: hello_entry_def)
  have n: "''hello'' \<notin> set hundred_words" by (rule hello_not_in_hundred)
  have l: "100 \<le> length hundred_words" by (simp add: hundred_words_def)
  have a: "alerts new_WordlyApp = []" by (simp add: new_WordlyApp_def)
  note t = toggleFavorite_behaviour [where JSON_stringify = JSON_stringify_words
      and entry = hello_entry and w = "''hello''", OF _ e]
  show ?thesis
    using e n l a
      t [of "new_WordlyApp\<lparr>currentWord := Some hello_entry, favorites := [''hi'', ''hello'']\<rparr>"]
      t [of "new_WordlyApp\<lparr>currentWord := Some hello_entry, favorites := hundred_words\<rparr>"]
      t [of "new_WordlyApp\<lparr>currentWord := Some hello_entry, favorites := [''hi'']\<rparr>"]
    by (simp add: insert_commute)
qed

subsection \<open>Aggregation of synonyms and antonyms\<close>

lemma Set_add_member: "x \<in> set s \<Longrightarrow> Set_add s x = s"
  by (simp add: Set_add_def)

lemma Set_add_new: "x \<notin> set s \<Longrightarrow> Set_add s x = s @ [x]"
  by (simp add: Set_add_def)

lemma set_first_seen: "set (first_seen xs) = set xs"
  by (induction xs rule: first_seen.induct) auto

lemma distinct_first_seen: "distinct (first_seen xs)"
  by (induction xs rule: first_seen.induct) (auto simp: set_first_seen)

lemma foldl_Set_add:
  "foldl Set_add acc xs = acc @ first_seen (filter (\<lambda>x. x \<notin> set acc) xs)"
proof (induction xs arbitrary: acc)
  case Nil
  show ?case by simp
next
  case (Cons x xs)
  show ?case
  proof (cases "x \<in> set acc")
    case True
    then show ?thesis by (simp add: Set_add_member Cons.IH)
  next
    case False
    have "filter (\<lambda>y. y \<notin> set (acc @ [x])) xs
        = filter (\<lambda>y. y \<noteq> x) (filter (\<lambda>y. y \<notin> set acc) xs)"
      by (induction xs) auto
    with False show ?thesis by (simp add: Set_add_new Cons.IH)
  qed
qed

lemma add_all_foldl: "add_all s field = foldl Set_add s (field_list field)"
  by (cases field) (auto simp: add_all_def field_list_def)

lemma definitions_fold:
  "foldl (\<lambda>s d. add_all s (g d)) s0 ds
     = foldl Set_add s0 (concat (map (\<lambda>d. field_list (g d)) ds))"
  by (induction ds arbitrary: s0) (simp_all add: add_all_foldl)

lemma meanings_fold:
  "foldl (\<lambda>S m. foldl (\<lambda>s d. add_all s (g d)) (add_all S (f m)) (m_definitions m)) acc ms
     = foldl Set_add acc (listed f g ms)"
proof (induction ms arbitrary: acc)
  case Nil
  show ?case by (simp add: listed_def)
next
  case (Cons m ms)
  have l: "listed f g (m # ms)
      = field_list (f m) @ concat (map (\<lambda>d. field_list (g d)) (m_definitions m)) @ listed f g ms"
    by (simp add: listed_def)
  have "foldl (\<lambda>s d. add_all s (g d)) (add_all acc (f m)) (m_definitions m)
      = foldl Set_add acc
          (field_list (f m) @ concat (map (\<lambda>d. field_list (g d)) (m_definitions m)))"
    by (simp only: definitions_fold) (simp only: add_all_foldl foldl_append)
  then show ?case
    by (simp only: foldl_Cons Cons.IH l foldl_append append_assoc)
qed

lemma collect_first_seen:
  "foldl (\<lambda>S m. foldl (\<lambda>s d. add_all s (g d)) (add_all S (f m)) (m_definitions m)) [] ms
     = first_seen (listed f g ms)"
  by (simp add: meanings_fold foldl_Set_add)

text \<open>
  Claim C5. For every sequence of meanings, \<open>collectSynonyms\<close> and \<open>collectAntonyms\<close>
  return the strings of the meaning-level and definition-level fields of all meanings, each
  exactly once, in first-seen order: the result is \<open>first_seen\<close> of the listed strings, it
  has no duplicates, and it holds exactly the listed strings.
\<close>

theorem aggregation_first_seen:
  "collectSynonyms meanings = first_seen (listed m_synonyms d_synonyms meanings)
   \<and> collectAntonyms meanings = first_seen (listed m_antonyms d_antonyms meanings)
   \<and> distinct (collectSynonyms meanings)
   \<and> distinct (collectAntonyms meanings)
   \<and> set (collectSynonyms meanings) = set (listed m_synonyms d_synonyms meanings)
   \<and> set (collectAntonyms meanings) = set (listed m_antonyms d_antonyms meanings)"
  by (simp add: collectSynonyms_def collectAntonyms_def collect_first_seen
        distinct_first_seen set_first_seen)

theorem aggregation_first_seen_witness:
  "collectSynonyms (entry_meanings hello_entry) = [''greetings'', ''hi'', ''howdy'']
   \<and> collectAntonyms (entry_meanings hello_entry) = [''goodbye'']
   \<and> distinct (collectSynonyms (entry_meanings hello_entry))"
  using aggregation_first_seen [of "entry_meanings hello_entry"]
  by (simp add: hello_entry_def listed_def field_list_def)

subsection \<open>The lookup client\<close>

lemma fetchWord_requests: "fetch_requested (fetchWord net w) = [request_url w]"
  by (simp add: fetchWord_def)

lemma fetchWord_not_found:
  assumes "latency (net (request_url w)) < API_CONFIG_TIMEOUT"
    and "settles (net (request_url w)) = Resolves r" and "resp_status r = 404"
  shows "fetch_result (fetchWord net w) = Inl (new_Error ''WORD_NOT_FOUND'')"
  using assms
  by (simp add: fetchWord_def fetchWord_try_def fetchWord_catch_def timer_fires_first_def
        response_ok_def new_Error_def Let_def)

lemma fetchWord_other_status:
  assumes "latency (net (request_url w)) < API_CONFIG_TIMEOUT"
    and "settles (net (request_url w)) = Resolves r"
    and "\<not> response_ok r" and "resp_status r \<noteq> 404"
  shows "fetch_result (fetchWord net w) = Inl (new_Error ''NETWORK_ERROR'')"
  using assms
  by (simp add: fetchWord_def fetchWord_try_def fetchWord_catch_def timer_fires_first_def
        new_Error_def Let_def)

lemma fetchWord_transport_failure:
  assumes "latency (net (request_url w)) < API_CONFIG_TIMEOUT"
    and "settles (net (request_url w)) = Rejects"
  shows "fetch_result (fetchWord net w) = Inl (new_Error ''NETWORK_ERROR'')"
  using assms
  by (simp add: fetchWord_def fetchWord_try_def fetchWord_catch_def timer_fires_first_def
        new_Error_def fetch_TypeError_def Let_def)

lemma fetchWord_malformed_body:
  assumes "latency (net (request_url w)) < API_CONFIG_TIMEOUT"
    and "settles (net (request_url w)) = Resolves r"
    and "response_ok r" and "resp_body r = None"
  shows "fetch_result (fetchWord net w) = Inl (new_Error ''NETWORK_ERROR'')"
  using assms
  by (simp add: fetchWord_def fetchWord_try_def fetchWord_catch_def timer_fires_first_def
        new_Error_def json_SyntaxError_def Let_def)

lemma fetchWord_timeout:
  assumes "API_CONFIG_TIMEOUT < latency (net (request_url w))"
  shows "fetch_result (fetchWord net w) = Inl (new_Error ''TIMEOUT'')"
    and "fetch_aborted (fetchWord net w)"
  using assms
  by (simp_all add: fetchWord_def fetchWord_try_def fetchWord_catch_def timer_fires_first_def
        new_Error_def AbortError_def Let_def)

lemma fetchWord_in_time:
  assumes "latency (net (request_url w)) < API_CONFIG_TIMEOUT"
  shows "\<not> fetch_aborted (fetchWord net w)"
    and "fetch_result (fetchWord net w) \<noteq> Inl (new_Error ''TIMEOUT'')"
proof -
  show "\<not> fetch_aborted (fetchWord net w)"
    using assms by (simp add: fetchWord_def timer_fires_first_def)
  show "fetch_result (fetchWord net w) \<noteq> Inl (new_Error ''TIMEOUT'')"
    using assms
    by (auto simp: fetchWord_def fetchWord_try_def fetchWord_catch_def timer_fires_first_def
          new_Error_def fetch_TypeError_def json_SyntaxError_def Let_def
          split: fetch_settle.splits option.splits)
qed

text \<open>
  Claim C4. The client maps status 404 to \<open>WORD_NOT_FOUND\<close>, and a transport failure or
  a body that is not JSON to \<open>NETWORK_ERROR\<close>, as the four lemmas above show. For any
  other non-success status the source throws \<open>Error('API_ERROR')\<close> inside the \<open>try\<close>
  block; the \<open>catch\<close> block of the same function rethrows only \<open>WORD_NOT_FOUND\<close> and
  replaces every other error by \<open>NETWORK_ERROR\<close>. At status 500 the client therefore
  fails with \<open>NETWORK_ERROR\<close> and not with the generic API error, and the application
  shows the panel \<open>Network Error\<close>.
\<close>

theorem fetchWord_status_500:
  "fetch_result (fetchWord failing_net ''hello'') = Inl (new_Error ''NETWORK_ERROR'')
   \<and> fetch_result (fetchWord failing_net ''hello'') \<noteq> Inl (new_Error ''API_ERROR'')
   \<and> errorTitle (ui (searchWord JSON_stringify_words failing_net ''hello'' new_WordlyApp))
       = ''Network Error''"
proof -
  have r: "fetch_result (fetchWord failing_net w) = Inl (new_Error ''NETWORK_ERROR'')" for w
    by (rule fetchWord_other_status [where r = "\<lparr>resp_status = 500, resp_body = None\<rparr>"])
       (simp_all add: failing_net_def API_CONFIG_TIMEOUT_def response_ok_def)
  have t: "trim ''hello'' = ''hello''"
    by (simp add: trim_def is_js_space_def)
  have "errorTitle (ui (searchWord JSON_stringify_words failing_net ''hello'' new_WordlyApp))
       = ''Network Error''"
    by (simp add: searchWord_def t r Let_def handleSearchError_def new_Error_def showError_def
          hideLoading_def)
  then show ?thesis by (simp add: r new_Error_def)
qed

text \<open>
  Claim C9. When the response arrives before the timeout with status 200 and an empty JSON
  array as its body, \<open>fetchWord\<close> returns \<open>undefined\<close>: its result is neither an entry
  nor an error.
\<close>

theorem fetchWord_empty_array:
  assumes "latency (net (request_url w)) < 10000"
    and "settles (net (request_url w)) = Resolves r"
    and "resp_status r = 200" and "resp_body r = Some []"
  shows "fetch_result (fetchWord net w) = Inr None"
  using assms
  by (simp add: fetchWord_def fetchWord_try_def timer_fires_first_def API_CONFIG_TIMEOUT_def
        response_ok_def first_item_def Let_def)

theorem fetchWord_empty_array_witness:
  "latency (empty_array_net (request_url ''zzzzz'')) < 10000
   \<and> settles (empty_array_net (request_url ''zzzzz''))
       = Resolves \<lparr>resp_status = 200, resp_body = Some []\<rparr>
   \<and> fetch_result (fetchWord empty_array_net ''zzzzz'') = Inr None"
proof -
  have h1: "latency (empty_array_net (request_url ''zzzzz'')) < 10000"
    by (simp add: empty_array_net_def)
  have h2: "settles (empty_array_net (request_url ''zzzzz''))
       = Resolves \<lparr>resp_status = 200, resp_body = Some []\<rparr>"
    by (simp add: empty_array_net_def)
  show ?thesis
    using h1 h2
      fetchWord_empty_array [where net = empty_array_net and w = "''zzzzz''"
        and r = "\<lparr>resp_status = 200, resp_body = Some []\<rparr>", OF h1 h2]
    by simp
qed

subsection \<open>The orchestrator\<close>

lemma trim_Nil: "trim [] = []"
  by (simp add: trim_def)

lemma searchWord_blank:
  assumes "trim w = []"
  shows "searchWord enc net w st
           = st\<lparr>ui := showError ''Invalid Input'' ''Please enter a word to look up.'' (ui st)\<rparr>"
  using assms by (simp add: searchWord_def)

lemma searchWord_accepted:
  assumes "trim w \<noteq> []"
  shows "requests (searchWord enc net w st)
           = requests st @ fetch_requested (fetchWord net (toLowerCase (trim w)))"
proof -
  have ne: "w \<noteq> []" using assms by (auto simp: trim_Nil)
  show ?thesis
    using assms ne
    by (simp add: searchWord_def Let_def handleSearchError_def addToHistory_other_fields
          split: sum.splits option.splits)
qed

text \<open>
  Claim C10. For every input that \<open>searchWord\<close> accepts (it is not empty after trimming),
  the one request of the lookup is the request of \<open>fetchWord\<close> for the trimmed,
  lower-cased input, and that word is not empty, is trimmed and is in lower case.
\<close>

theorem searchWord_passes_clean_word:
  assumes "trim input \<noteq> []" and "cleanWord = toLowerCase (trim input)"
  shows "requests (searchWord JSON_stringify net input st)
           = requests st @ fetch_requested (fetchWord net cleanWord)
         \<and> fetch_requested (fetchWord net cleanWord) = [request_url cleanWord]
         \<and> cleanWord \<noteq> []
         \<and> trim cleanWord = cleanWord
         \<and> toLowerCase cleanWord = cleanWord"
proof (intro conjI)
  show "requests (searchWord JSON_stringify net input st)
           = requests st @ fetch_requested (fetchWord net cleanWord)"
    unfolding assms(2) using assms(1) by (rule searchWord_accepted)
  show "fetch_requested (fetchWord net cleanWord) = [request_url cleanWord]"
    by (rule fetchWord_requests)
  show "cleanWord \<noteq> []" using assms by (simp add: toLowerCase_def)
  show "trim cleanWord = cleanWord"
    by (simp add: assms(2) trim_toLowerCase trim_idem)
  show "toLowerCase cleanWord = cleanWord"
    by (simp add: assms(2) toLowerCase_idem)
qed

theorem searchWord_passes_clean_word_witness:
  "trim '' Hello '' \<noteq> [] \<and> ''hello'' = toLowerCase (trim '' Hello '')
   \<and> requests (searchWord JSON_stringify_words hello_net '' Hello '' new_WordlyApp)
       = [''https://api.dictionaryapi.dev/api/v2/entries/en/hello'']
   \<and> trim ''hello'' = ''hello'' \<and> toLowerCase ''hello'' = ''hello''"
proof -
  have h1: "trim '' Hello '' \<noteq> []" by (simp add: trim_Hello_padded)
  have h2: "''hello'' = toLowerCase (trim '' Hello '')"
    by (simp add: trim_Hello_padded lower_Hello)
  have r: "requests new_WordlyApp = []" by (simp add: new_WordlyApp_def)
  have c: "requests (searchWord JSON_stringify_words hello_net '' Hello '' new_WordlyApp)
       = [''https://api.dictionaryapi.dev/api/v2/entries/en/hello'']
     \<and> trim ''hello'' = ''hello'' \<and> toLowerCase ''hello'' = ''hello''"
    using r searchWord_passes_clean_word [OF h1 h2, of JSON_stringify_words hello_net new_WordlyApp]
    by (simp add: url_hello)
  show ?thesis using h1 h2 c by blast
qed

text \<open>
  Claim C7, as amended. For every input that is empty or holds only white space,
  \<open>searchWord\<close> shows the error panel \<open>Invalid Input\<close> and issues no request; the
  \<open>submit\<close> listener of the search form, with that input in the field, issues no request
  either and leaves the state as it was, so that no error is shown.
\<close>

theorem blank_input_no_request:
  assumes "trim input = []"
  shows "searchWord JSON_stringify net input st
           = st\<lparr>ui := showError ''Invalid Input'' ''Please enter a word to look up.'' (ui st)\<rparr>
         \<and> errorTitle (ui (searchWord JSON_stringify net input st)) = ''Invalid Input''
         \<and> \<not> errorContainer_hidden (ui (searchWord JSON_stringify net input st))
         \<and> requests (searchWord JSON_stringify net input st) = requests st
         \<and> (wordInput_value (ui st) = input \<longrightarrow> searchForm_submit JSON_stringify net st = st)"
  using assms
  by (simp add: searchWord_blank searchForm_submit_def showError_def hideLoading_def)

theorem blank_input_no_request_witness:
  "trim ''   '' = []
   \<and> errorTitle (ui (searchWord JSON_stringify_words hello_net ''   '' new_WordlyApp))
       = ''Invalid Input''
   \<and> requests (searchWord JSON_stringify_words hello_net ''   '' new_WordlyApp) = []
   \<and> searchForm_submit JSON_stringify_words hello_net
        (new_WordlyApp\<lparr>ui := blank_ui\<lparr>wordInput_value := ''   ''\<rparr>\<rparr>)
       = new_WordlyApp\<lparr>ui := blank_ui\<lparr>wordInput_value := ''   ''\<rparr>\<rparr>"
proof -
  have h: "trim ''   '' = []" by (simp add: trim_def is_js_space_def)
  have r: "requests new_WordlyApp = []" by (simp add: new_WordlyApp_def)
  show ?thesis
    using h r
      blank_input_no_request [OF h, of JSON_stringify_words hello_net new_WordlyApp]
      blank_input_no_request [OF h, of JSON_stringify_words hello_net
        "new_WordlyApp\<lparr>ui := blank_ui\<lparr>wordInput_value := ''   ''\<rparr>\<rparr>"]
    by (simp add: showError_def hideLoading_def)
qed

text \<open>
  Claim C7 as stated fails on the \<open>submit\<close> listener: submitting three spaces in the
  freshly constructed application leaves the error panel hidden, and its title is not
  \<open>Invalid Input\<close>.
\<close>

theorem blank_submit_shows_no_error:
  "trim ''   '' = []
   \<and> errorContainer_hidden
       (ui (searchForm_submit JSON_stringify_words hello_net
              (new_WordlyApp\<lparr>ui := blank_ui\<lparr>wordInput_value := ''   ''\<rparr>\<rparr>)))
   \<and> errorTitle
       (ui (searchForm_submit JSON_stringify_words hello_net
              (new_WordlyApp\<lparr>ui := blank_ui\<lparr>wordInput_value := ''   ''\<rparr>\<rparr>)))
       \<noteq> ''Invalid Input''"
proof -
  have t: "trim ''   '' = []" by (simp add: trim_def is_js_space_def)
  show ?thesis
    by (simp add: t searchForm_submit_def blank_ui_def)
qed

text \<open>
  Claim C8, as amended. When the response to the request of a lookup has not arrived after
  the timeout of 10000 ms, so that the promise of \<open>fetch\<close> is still pending, the client
  aborts the request and fails with \<open>TIMEOUT\<close>, and the application shows the error panel
  \<open>Request Timeout\<close> for the searched word, with the loading and word panels hidden; the
  current word and the history stay as they were.
\<close>

theorem lookup_timeout:
  assumes "trim input \<noteq> []" and "cleanWord = toLowerCase (trim input)"
    and "10000 < latency (net (request_url cleanWord))"
  shows "fetch_result (fetchWord net cleanWord) = Inl (new_Error ''TIMEOUT'')
         \<and> fetch_aborted (fetchWord net cleanWord)
         \<and> aborts (searchWord JSON_stringify net input st) = aborts st + 1
         \<and> ui (searchWord JSON_stringify net input st)
             = showError ''Request Timeout''
                 ''The request took too long. Please check your internet connection and try again.''
                 (showLoading ((ui st)\<lparr>wordInput_value := cleanWord\<rparr>))
         \<and> errorTitle (ui (searchWord JSON_stringify net input st)) = ''Request Timeout''
         \<and> \<not> errorContainer_hidden (ui (searchWord JSON_stringify net input st))
         \<and> wordDisplay_hidden (ui (searchWord JSON_stringify net input st))
         \<and> loadingState_hidden (ui (searchWord JSON_stringify net input st))
         \<and> wordInput_value (ui (searchWord JSON_stringify net input st)) = cleanWord
         \<and> currentWord (searchWord JSON_stringify net input st) = currentWord st
         \<and> searchHistory (searchWord JSON_stringify net input st) = searchHistory st"
proof -
  have ne: "input \<noteq> []" using assms(1) by (auto simp: trim_Nil)
  have lat: "API_CONFIG_TIMEOUT < latency (net (request_url cleanWord))"
    using assms(3) by (simp add: API_CONFIG_TIMEOUT_def)
  note f = fetchWord_timeout [of net cleanWord, OF lat]
  have s: "searchWord JSON_stringify net input st
      = handleSearchError (new_Error ''TIMEOUT'') cleanWord
          (st\<lparr>ui := showLoading ((ui st)\<lparr>wordInput_value := cleanWord\<rparr>),
               requests := requests st @ fetch_requested (fetchWord net cleanWord),
               aborts := aborts st + 1\<rparr>)"
    using assms(1) ne f by (simp add: searchWord_def Let_def assms(2))
  show ?thesis
    unfolding s using f
    by (simp add: handleSearchError_def new_Error_def showError_def hideLoading_def
          showLoading_def)
qed

theorem lookup_timeout_witness:
  "trim ''hello'' \<noteq> [] \<and> ''hello'' = toLowerCase (trim ''hello'')
   \<and> 10000 < latency (slow_net (request_url ''hello''))
   \<and> fetch_result (fetchWord slow_net ''hello'') = Inl (new_Error ''TIMEOUT'')
   \<and> fetch_aborted (fetchWord slow_net ''hello'')
   \<and> aborts (searchWord JSON_stringify_words slow_net ''hello'' new_WordlyApp) = 1
   \<and> errorTitle (ui (searchWord JSON_stringify_words slow_net ''hello'' new_WordlyApp))
       = ''Request Timeout''
   \<and> \<not> errorContainer_hidden (ui (searchWord JSON_stringify_words slow_net ''hello'' new_WordlyApp))
   \<and> searchHistory (searchWord JSON_stringify_words slow_net ''hello'' new_WordlyApp) = []"
proof -
  have h1: "trim ''hello'' \<noteq> []" by (simp add: trim_hello)
  have h2: "''hello'' = toLowerCase (trim ''hello'')" by (simp add: trim_hello lower_hello)
  have h3: "10000 < latency (slow_net (request_url ''hello''))" by (simp add: slow_net_def)
  have r: "aborts new_WordlyApp = 0" "searchHistory new_WordlyApp = []"
    by (simp_all add: new_WordlyApp_def)
  have c: "fetch_result (fetchWord slow_net ''hello'') = Inl (new_Error ''TIMEOUT'')
   \<and> fetch_aborted (fetchWord slow_net ''hello'')
   \<and> aborts (searchWord JSON_stringify_words slow_net ''hello'' new_WordlyApp) = 1
   \<and> errorTitle (ui (searchWord JSON_stringify_words slow_net ''hello'' new_WordlyApp))
       = ''Request Timeout''
   \<and> \<not> errorContainer_hidden (ui (searchWord JSON_stringify_words slow_net ''hello'' new_WordlyApp))
   \<and> searchHistory (searchWord JSON_stringify_words slow_net ''hello'' new_WordlyApp) = []"
    using r lookup_timeout [where input = "''hello''" and cleanWord = "''hello''"
        and net = slow_net and JSON_stringify = JSON_stringify_words
        and st = new_WordlyApp, OF h1 h2 h3]
    by (simp add: showError_def hideLoading_def)
  show ?thesis using h1 h2 h3 c by blast
qed

lemma renderWord_shows_word:
  "errorContainer_hidden (renderWord e fav u)" "\<not> wordDisplay_hidden (renderWord e fav u)"
  "errorTitle (renderWord e fav u) = errorTitle u"
  by (simp_all add: renderWord_def renderRelatedWords_def hideError_def hideLoading_def
        updateFavoriteButton_def Let_def)

lemma searchWord_success_state:
  assumes "trim word \<noteq> []"
    and "fetch_result (fetchWord net (toLowerCase (trim word))) = Inr (Some e)"
  shows "errorContainer_hidden (ui (searchWord enc net word st))"
    and "\<not> wordDisplay_hidden (ui (searchWord enc net word st))"
    and "errorTitle (ui (searchWord enc net word st)) = errorTitle (ui st)"
    and "currentWord (searchWord enc net word st) = Some e"
    and "aborts (searchWord enc net word st)
           = aborts st + (if fetch_aborted (fetchWord net (toLowerCase (trim word))) then 1 else 0)"
proof -
  have ne: "word \<noteq> []" using assms(1) by (auto simp: trim_def)
  show "errorContainer_hidden (ui (searchWord enc net word st))"
    using assms ne by (simp add: searchWord_def Let_def renderWord_shows_word)
  show "\<not> wordDisplay_hidden (ui (searchWord enc net word st))"
    using assms ne by (simp add: searchWord_def Let_def renderWord_shows_word)
  show "errorTitle (ui (searchWord enc net word st)) = errorTitle (ui st)"
    using assms ne
    by (simp add: searchWord_def Let_def renderWord_shows_word addToHistory_other_fields
          showLoading_def)
  show "currentWord (searchWord enc net word st) = Some e"
    using assms ne by (simp add: searchWord_def Let_def addToHistory_other_fields)
  show "aborts (searchWord enc net word st)
           = aborts st + (if fetch_aborted (fetchWord net (toLowerCase (trim word))) then 1 else 0)"
    using assms ne by (simp add: searchWord_def Let_def addToHistory_other_fields)
qed

text \<open>
  Claim C8 as stated fails for a request that passes the timeout while its body is read: the
  response arrives after 120 ms, the source clears the timer, and the body takes twelve more
  seconds. The request takes more than 10000 ms, yet it is not aborted, \<open>fetchWord\<close>
  returns the entry after 12120 ms, and the application shows the word and no
  \<open>Request Timeout\<close> panel.
\<close>

theorem slow_body_no_timeout:
  "10000 < request_time (late_body_net (request_url ''hello''))
   \<and> fetch_elapsed (fetchWord late_body_net ''hello'') = 12120
   \<and> fetch_result (fetchWord late_body_net ''hello'') = Inr (Some hello_entry)
   \<and> \<not> fetch_aborted (fetchWord late_body_net ''hello'')
   \<and> aborts (searchWord JSON_stringify_words late_body_net ''hello'' new_WordlyApp) = 0
   \<and> errorContainer_hidden
        (ui (searchWord JSON_stringify_words late_body_net ''hello'' new_WordlyApp))
   \<and> errorTitle (ui (searchWord JSON_stringify_words late_body_net ''hello'' new_WordlyApp))
        \<noteq> ''Request Timeout''
   \<and> currentWord (searchWord JSON_stringify_words late_body_net ''hello'' new_WordlyApp)
        = Some hello_entry"
proof -
  have t: "trim ''hello'' \<noteq> []" by (simp add: trim_hello)
  have c: "toLowerCase (trim ''hello'') = ''hello''" by (simp add: trim_hello lower_hello)
  have r: "fetch_result (fetchWord late_body_net w) = Inr (Some hello_entry)" for w
    by (simp add: fetchWord_def fetchWord_try_def late_body_net_def timer_fires_first_def
          API_CONFIG_TIMEOUT_def response_ok_def first_item_def)
  have a: "\<not> fetch_aborted (fetchWord late_body_net w)" for w
    by (simp add: fetchWord_def late_body_net_def timer_fires_first_def API_CONFIG_TIMEOUT_def)
  have e: "fetch_elapsed (fetchWord late_body_net w) = 12120" for w
    by (simp add: fetchWord_def fetchWord_elapsed_def late_body_net_def timer_fires_first_def
          API_CONFIG_TIMEOUT_def response_ok_def)
  have q: "10000 < request_time (late_body_net u)" for u
    by (simp add: request_time_def late_body_net_def)
  have f: "fetch_result (fetchWord late_body_net (toLowerCase (trim ''hello'')))
      = Inr (Some hello_entry)" by (rule r)
  note s = searchWord_success_state [OF t f, of JSON_stringify_words new_WordlyApp]
  have i: "aborts new_WordlyApp = 0" "errorTitle (ui new_WordlyApp) = []"
    by (simp_all add: new_WordlyApp_def blank_ui_def)
  show ?thesis
    using s by (simp add: q e r a i)
qed

end
